theory Spec2Isabelle
  imports Main "HOL-Library.Word"
begin

section \<open>Strings\<close>

text \<open>
  A JavaScript string is a sequence of UTF-16 code units; \<open>length\<close>, \<open>substring\<close> and a
  regular expression without the \<open>u\<close> flag all count and match code units.
\<close>

type_synonym code_unit = "16 word"
type_synonym js_string = "code_unit list"

definition ascii :: "string \<Rightarrow> js_string" where
  "ascii cs = map of_char cs"

section \<open>The scene graph\<close>

text \<open>
  The part of three.js the sources look at. A geometry buffer is known by its identity.
  A material carries the two fields that \<open>ModelObject\<close> writes. The \<open>material\<close> field of
  a mesh is one material or an array of them. Of the class of a node the sources test
  \<open>instanceof THREE.Group\<close>, \<open>instanceof THREE.Mesh\<close> and \<open>instanceof THREE.Object3D\<close>;
  every node has children. \<open>THREE_Drawable\<close> stands for the nodes that are drawn from a
  geometry and materials of their own without being a \<open>THREE.Mesh\<close>: \<open>THREE.Line\<close>,
  \<open>THREE.Points\<close> and \<open>THREE.Sprite\<close>. \<open>THREE_Other\<close> is any other \<open>Object3D\<close>.
\<close>

datatype geometry = BufferGeometry nat

record material =
  material_id :: nat
  wireframe :: bool
  needsUpdate :: bool

datatype mesh_material = Single material | Multi "material list"

datatype node_class =
  THREE_Group
  | THREE_Mesh geometry mesh_material
  | THREE_Drawable geometry mesh_material
  | THREE_Other

datatype object3d = Object3D node_class "object3d list"

fun class_of :: "object3d \<Rightarrow> node_class" where
  "class_of (Object3D c cs) = c"

fun children :: "object3d \<Rightarrow> object3d list" where
  "children (Object3D c cs) = cs"

fun instanceof_Group :: "object3d \<Rightarrow> bool" where
  "instanceof_Group (Object3D THREE_Group cs) = True"
| "instanceof_Group (Object3D c cs) = False"

fun instanceof_Mesh :: "object3d \<Rightarrow> bool" where
  "instanceof_Mesh (Object3D (THREE_Mesh g m) cs) = True"
| "instanceof_Mesh (Object3D c cs) = False"

text \<open>\<open>new THREE.Group()\<close> and \<open>parent.add(child)\<close>, which appends to the children.\<close>

definition new_Group :: object3d where
  "new_Group = Object3D THREE_Group []"

fun add :: "object3d \<Rightarrow> object3d \<Rightarrow> object3d" where
  "add (Object3D c cs) child = Object3D c (cs @ [child])"

section \<open>executeGeneratedCode (utils/threeHelpers.ts)\<close>

text \<open>
  The JavaScript engine is a parameter. \<open>new Function(`return ${code}`)()\<close> either
  throws (a syntax error, or a fault while the expression is evaluated) or yields a value,
  which is a function or not; the function, called with the rendering namespace, either
  throws or returns a value, which is an \<open>Object3D\<close> or anything else.

  The program runs with the global scope in reach, so it can replace \<open>console.error\<close>,
  which the \<open>catch\<close> clause calls. Every outcome that takes the function into its
  \<open>catch\<close> clause therefore carries what \<open>console.error\<close> does when it is called there:
  it logs, or it throws.
\<close>

datatype console_error = Console_logs | Console_throws

datatype raw_value = Object3D_value object3d | Other_value console_error

datatype invocation = Invoke_throws console_error | Invoke_returns raw_value

datatype compiled = Compile_throws console_error | Not_a_function console_error | Generator invocation

type_synonym js_engine = "js_string \<Rightarrow> compiled"

datatype exec_error =
  Thrown_by_compile
  | Did_not_return_a_function
  | Thrown_by_invoke
  | Not_a_valid_Group_or_Object3D

datatype thrown = Thrown_by_console_error

text \<open>
  The body of the \<open>try\<close> block: \<open>Inl\<close> is a throw, with what \<open>console.error\<close> does at
  that moment, \<open>Inr\<close> a \<open>return\<close>.
\<close>

definition executeGeneratedCode_try ::
  "js_engine \<Rightarrow> js_string \<Rightarrow> (exec_error \<times> console_error) + object3d" where
  "executeGeneratedCode_try js code =
     (case js code of
        Compile_throws c \<Rightarrow> Inl (Thrown_by_compile, c)
      | Not_a_function c \<Rightarrow> Inl (Did_not_return_a_function, c)
      | Generator (Invoke_throws c) \<Rightarrow> Inl (Thrown_by_invoke, c)
      | Generator (Invoke_returns (Other_value c)) \<Rightarrow> Inl (Not_a_valid_Group_or_Object3D, c)
      | Generator (Invoke_returns (Object3D_value grp)) \<Rightarrow>
          (if \<not> instanceof_Group grp \<and> \<not> instanceof_Mesh grp
           then Inr (add new_Group grp)
           else if instanceof_Group grp then Inr grp
           else Inr (add new_Group grp)))"

text \<open>
  The whole function: \<open>Inr\<close> is what it returns, \<open>Inl\<close> an exception that leaves it. The
  \<open>catch\<close> clause calls \<open>console.error\<close> and then returns \<open>null\<close>; when \<open>console.error\<close>
  throws, that exception leaves the function, since the call is outside any \<open>try\<close>.
\<close>

definition executeGeneratedCode :: "js_engine \<Rightarrow> js_string \<Rightarrow> thrown + object3d option" where
  "executeGeneratedCode js code =
     (case executeGeneratedCode_try js code of
        Inl (error, Console_logs) \<Rightarrow> Inr None
      | Inl (error, Console_throws) \<Rightarrow> Inl Thrown_by_console_error
      | Inr grp \<Rightarrow> Inr (Some grp))"

text \<open>The lines that reach the console.\<close>

definition executeGeneratedCode_console :: "js_engine \<Rightarrow> js_string \<Rightarrow> exec_error list" where
  "executeGeneratedCode_console js code =
     (case executeGeneratedCode_try js code of
        Inl (error, Console_logs) \<Rightarrow> [error]
      | Inl (error, Console_throws) \<Rightarrow> []
      | Inr grp \<Rightarrow> [])"

section \<open>ModelObject and GeneratedObject (components/ScenePreview.tsx)\<close>

text \<open>
  \<open>Object3D.traverse(callback)\<close> of three.js calls the callback on the node and then
  traverses each child in order. Here the callback acts on a state that is threaded
  through the traversal.
\<close>

fun traverse :: "(object3d \<Rightarrow> 's \<Rightarrow> 's) \<Rightarrow> object3d \<Rightarrow> 's \<Rightarrow> 's" where
  "traverse callback (Object3D c cs) s = fold (traverse callback) cs (callback (Object3D c cs) s)"

text \<open>\<open>Array.isArray(child.material) ? child.material : [child.material]\<close>\<close>

fun materials :: "mesh_material \<Rightarrow> material list" where
  "materials (Multi ms) = ms"
| "materials (Single m) = [m]"




text \<open>
  The cleanup that the effect of \<open>GeneratedObject\<close> returns. Each \<open>dispose()\<close> call is
  recorded, in order, in a log of releases.
\<close>

datatype release = Dispose_geometry geometry | Dispose_material nat

fun dispose_child :: "object3d \<Rightarrow> release list \<Rightarrow> release list" where
  "dispose_child (Object3D (THREE_Mesh g (Multi ms)) cs) log =
     log @ [Dispose_geometry g] @ map (\<lambda>m. Dispose_material (material_id m)) ms"
| "dispose_child (Object3D (THREE_Mesh g (Single m)) cs) log =
     log @ [Dispose_geometry g] @ [Dispose_material (material_id m)]"
| "dispose_child (Object3D c cs) log = log"

definition GeneratedObject_cleanup :: "object3d \<Rightarrow> release list \<Rightarrow> release list" where
  "GeneratedObject_cleanup generatedGroup log = traverse dispose_child generatedGroup log"

text \<open>
  The state of a mounted \<open>GeneratedObject\<close>: its \<open>group\<close> state and the scene captured by
  the cleanup of its last effect run, if that run returned one.
\<close>

record generated_object =
  group_state :: "object3d option"
  cleanup :: "object3d option"

text \<open>
  One run of the effect. The second component is the argument of the \<open>onLoaded\<close> call,
  if the run makes one. An exception that leaves \<open>executeGeneratedCode\<close> leaves the effect
  as well, before \<open>setGroup\<close> and \<open>onLoaded\<close>, and the effect returns no cleanup.
\<close>

definition GeneratedObject_effect ::
  "js_engine \<Rightarrow> js_string \<Rightarrow> generated_object \<Rightarrow> generated_object \<times> object3d option" where
  "GeneratedObject_effect js code gobj =
     (if code = [] then (gobj\<lparr>cleanup := None\<rparr>, None)
      else case executeGeneratedCode js code of
             Inr (Some generatedGroup) \<Rightarrow>
               (gobj\<lparr>group_state := Some generatedGroup, cleanup := Some generatedGroup\<rparr>,
                Some generatedGroup)
           | Inr None \<Rightarrow> (gobj\<lparr>cleanup := None\<rparr>, None)
           | Inl exception \<Rightarrow> (gobj\<lparr>cleanup := None\<rparr>, None))"

definition run_cleanup :: "generated_object \<Rightarrow> release list \<Rightarrow> release list" where
  "run_cleanup gobj log =
     (case cleanup gobj of None \<Rightarrow> log | Some generatedGroup \<Rightarrow> GeneratedObject_cleanup generatedGroup log)"

text \<open>
  \<open>ScenePreview\<close> renders \<open>{code && <GeneratedObject code={code} ... />}\<close>. A commit in
  which the dependencies of the effect have changed unmounts the component when the code
  is empty (React runs the cleanup), mounts it with a \<open>null\<close> group when it was absent
  (React runs the effect), and otherwise runs the cleanup of the last run and then the
  effect.
\<close>

record preview =
  slot :: "generated_object option"
  released :: "release list"

definition preview_init :: preview where
  "preview_init = \<lparr>slot = None, released = []\<rparr>"

definition ScenePreview_commit ::
  "js_engine \<Rightarrow> js_string \<Rightarrow> preview \<Rightarrow> preview \<times> object3d option" where
  "ScenePreview_commit js code pv =
     (if code = [] then
        (case slot pv of
           None \<Rightarrow> (pv, None)
         | Some gobj \<Rightarrow> (\<lparr>slot = None, released = run_cleanup gobj (released pv)\<rparr>, None))
      else
        (case slot pv of
           None \<Rightarrow>
             (let (gobj', loaded) = GeneratedObject_effect js code \<lparr>group_state = None, cleanup = None\<rparr>
              in (\<lparr>slot = Some gobj', released = released pv\<rparr>, loaded))
         | Some gobj \<Rightarrow>
             (let (gobj', loaded) = GeneratedObject_effect js code gobj
              in (\<lparr>slot = Some gobj', released = run_cleanup gobj (released pv)\<rparr>, loaded))))"


definition unmount :: "preview \<Rightarrow> preview" where
  "unmount pv =
     (case slot pv of
        None \<Rightarrow> pv
      | Some gobj \<Rightarrow> \<lparr>slot = None, released = run_cleanup gobj (released pv)\<rparr>)"






text \<open>
  For the statements: the meshes of a scene in traversal order, the releases owed to one
  mesh, and the scenes that a run of commits makes current (those it hands to \<open>onLoaded\<close>).
\<close>

fun meshes :: "object3d \<Rightarrow> (geometry \<times> mesh_material) list" where
  "meshes (Object3D c cs) =
     (case c of THREE_Mesh g m \<Rightarrow> [(g, m)] | _ \<Rightarrow> []) @ concat (map meshes cs)"

definition leaf_releases :: "geometry \<times> mesh_material \<Rightarrow> release list" where
  "leaf_releases leaf =
     Dispose_geometry (fst leaf) # map (\<lambda>m. Dispose_material (material_id m)) (materials (snd leaf))"


section \<open>exportToBinaryGLB (utils/threeHelpers.ts)\<close>

text \<open>
  \<open>GLTFExporter.parse(object, onDone, onError, options)\<close> is a parameter: it calls
  \<open>onDone\<close> with an \<open>ArrayBuffer\<close> or with a glTF JSON object, or \<open>onError\<close> with an error.
  \<open>JSON.stringify\<close> is a parameter as well. What the function does to the outside is a
  file saved through a download link, or a line on the console.
\<close>

datatype 'j parse_result = ArrayBuffer "8 word list" | Gltf_object 'j

datatype ('j, 'e) parse_outcome = On_done "'j parse_result" | On_error 'e

datatype blob_part = Buffer_part "8 word list" | String_part js_string

record blob =
  blob_parts :: "blob_part list"
  blob_type :: js_string

datatype 'e console_line = Console_warn js_string | Console_error js_string 'e

record 'e io =
  saved :: "(blob \<times> js_string) list"
  console :: "'e console_line list"

definition save :: "blob \<Rightarrow> js_string \<Rightarrow> 'e io \<Rightarrow> 'e io" where
  "save b filename w = w\<lparr>saved := saved w @ [(b, filename)]\<rparr>"

definition saveString :: "js_string \<Rightarrow> js_string \<Rightarrow> 'e io \<Rightarrow> 'e io" where
  "saveString text filename w =
     save \<lparr>blob_parts = [String_part text], blob_type = ascii ''text/plain''\<rparr> filename w"

definition saveArrayBuffer :: "8 word list \<Rightarrow> js_string \<Rightarrow> 'e io \<Rightarrow> 'e io" where
  "saveArrayBuffer buffer filename w =
     save \<lparr>blob_parts = [Buffer_part buffer], blob_type = ascii ''application/octet-stream''\<rparr>
       filename w"

definition exportToBinaryGLB ::
  "(object3d \<Rightarrow> bool \<Rightarrow> ('j, 'e) parse_outcome) \<Rightarrow> ('j \<Rightarrow> js_string) \<Rightarrow>
   object3d \<Rightarrow> js_string \<Rightarrow> 'e io \<Rightarrow> 'e io" where
  "exportToBinaryGLB parse stringify object filename w =
     (case parse object True of
        On_done (ArrayBuffer result) \<Rightarrow> saveArrayBuffer result (filename @ ascii ''.glb'') w
      | On_done (Gltf_object result) \<Rightarrow>
          saveString (stringify result) (filename @ ascii ''.gltf'')
            (w\<lparr>console := console w @
               [Console_warn (ascii ''Exporter did not return ArrayBuffer, falling back to JSON'')]\<rparr>)
      | On_error error \<Rightarrow>
          w\<lparr>console := console w @
             [Console_error (ascii ''An error happened during export:'') error]\<rparr>)"

section \<open>App (App.tsx)\<close>

datatype GenerationStatus = IDLE | GENERATING | SUCCESS | ERROR

record HistoryItem =
  item_id :: js_string
  item_prompt :: js_string
  item_code :: js_string
  createdAt :: nat

text \<open>
  The state of \<open>App\<close> that the handlers read and write. An \<open>AbortController\<close> is known
  by a number, given out in order; \<open>aborted\<close> holds those whose signal is aborted.
  \<open>requests\<close> records the calls of \<open>generate3DModelCode\<close>, each with its controller and
  prompt.
\<close>

record app =
  prompt :: js_string
  status :: GenerationStatus
  generatedCode :: js_string
  currentModel :: "object3d option"
  history :: "HistoryItem list"
  abortControllerRef :: "nat option"
  aborted :: "nat set"
  controllers :: nat
  requests :: "(nat \<times> js_string) list"

text \<open>\<open>String.prototype.trim\<close>: white space and line terminators of ECMAScript.\<close>

definition isWhiteSpace :: "code_unit \<Rightarrow> bool" where
  "isWhiteSpace c \<longleftrightarrow>
     c \<in> {0x0009, 0x000A, 0x000B, 0x000C, 0x000D, 0x0020, 0x00A0, 0x1680, 0x2028, 0x2029,
          0x202F, 0x205F, 0x3000, 0xFEFF} \<or> (0x2000 \<le> c \<and> c \<le> 0x200A)"

definition trim :: "js_string \<Rightarrow> js_string" where
  "trim s = rev (dropWhile isWhiteSpace (rev (dropWhile isWhiteSpace s)))"

text \<open>\<open>Date.now().toString()\<close>: the decimal digits of the number.\<close>

fun toString :: "nat \<Rightarrow> js_string" where
  "toString n =
     (if n < 10 then [of_nat (48 + n)] else toString (n div 10) @ [of_nat (48 + n mod 10)])"

declare toString.simps [simp del]

text \<open>
  \<open>handleGenerate\<close> up to its \<open>await\<close>. The request goes out with the prompt of this
  render.
\<close>

definition handleGenerate :: "app \<Rightarrow> app" where
  "handleGenerate s =
     (if trim (prompt s) = [] then s
      else
        let s1 = (case abortControllerRef s of
                    Some previous \<Rightarrow> s\<lparr>aborted := insert previous (aborted s)\<rparr>
                  | None \<Rightarrow> s);
            controller = controllers s1
        in s1\<lparr>controllers := Suc controller,
              abortControllerRef := Some controller,
              status := GENERATING,
              generatedCode := [],
              currentModel := None,
              requests := requests s1 @ [(controller, prompt s)]\<rparr>)"

text \<open>The \<open>finally\<close> block of \<open>handleGenerate\<close>.\<close>

definition handleGenerate_finally :: "nat \<Rightarrow> app \<Rightarrow> app" where
  "handleGenerate_finally controller s =
     (if abortControllerRef s = Some controller then s\<lparr>abortControllerRef := None\<rparr> else s)"

text \<open>
  \<open>handleGenerate\<close> after its \<open>await\<close>, when the call of this controller, made with
  prompt \<open>p\<close>, resolves with \<open>code\<close>; the two numbers are the results of the two
  \<open>Date.now()\<close> calls.
\<close>

definition handleGenerate_resolved :: "nat \<Rightarrow> js_string \<Rightarrow> js_string \<Rightarrow> nat \<Rightarrow> nat \<Rightarrow> app \<Rightarrow> app" where
  "handleGenerate_resolved controller p code now1 now2 s =
     handleGenerate_finally controller
       (if controller \<in> aborted s then s
        else
          let newItem = \<lparr>item_id = toString now1, item_prompt = p, item_code = code,
                         createdAt = now2\<rparr>
          in s\<lparr>generatedCode := code, status := SUCCESS, history := newItem # history s\<rparr>)"

text \<open>The same when the call rejects (the \<open>catch\<close> clause).\<close>

definition handleGenerate_rejected :: "nat \<Rightarrow> app \<Rightarrow> app" where
  "handleGenerate_rejected controller s =
     handleGenerate_finally controller
       (if controller \<in> aborted s then s else s\<lparr>status := ERROR\<rparr>)"

definition handleStop :: "app \<Rightarrow> app" where
  "handleStop s =
     (case abortControllerRef s of
        Some controller \<Rightarrow>
          s\<lparr>aborted := insert controller (aborted s), abortControllerRef := None, status := IDLE\<rparr>
      | None \<Rightarrow> s)"

definition loadHistory :: "HistoryItem \<Rightarrow> app \<Rightarrow> app" where
  "loadHistory item s =
     s\<lparr>prompt := item_prompt item, generatedCode := item_code item, status := SUCCESS\<rparr>"

text \<open>\<open>onModelReady={(group) => setCurrentModel(group)}\<close> and the prompt's \<open>onChange\<close>.\<close>

definition onModelReady :: "object3d \<Rightarrow> app \<Rightarrow> app" where
  "onModelReady grp s = s\<lparr>currentModel := Some grp\<rparr>"

definition setPrompt :: "js_string \<Rightarrow> app \<Rightarrow> app" where
  "setPrompt p s = s\<lparr>prompt := p\<rparr>"

text \<open>
  The file name of \<open>handleDownload\<close>:
  \<open>prompt.replace(/[^a-z0-9]/gi, '_').toLowerCase().substring(0, 20) || 'model'\<close>.
  The character class, with the \<open>i\<close> flag and no \<open>u\<close> flag, holds the ASCII letters and
  digits. \<open>toLowerCase\<close> is given on the ASCII capitals, the only code units it can
  change after the replacement.
\<close>

definition alphanumeric :: "code_unit \<Rightarrow> bool" where
  "alphanumeric c \<longleftrightarrow>
     (0x61 \<le> c \<and> c \<le> 0x7A) \<or> (0x41 \<le> c \<and> c \<le> 0x5A) \<or> (0x30 \<le> c \<and> c \<le> 0x39)"

definition replace_non_alphanumeric :: "js_string \<Rightarrow> js_string" where
  "replace_non_alphanumeric s = map (\<lambda>c. if alphanumeric c then c else 0x5F) s"

definition toLowerCase :: "js_string \<Rightarrow> js_string" where
  "toLowerCase s = map (\<lambda>c. if 0x41 \<le> c \<and> c \<le> 0x5A then c + 0x20 else c) s"

definition substring :: "nat \<Rightarrow> nat \<Rightarrow> js_string \<Rightarrow> js_string" where
  "substring start finish s =
     (let a = min (min start finish) (length s); b = min (max start finish) (length s)
      in take (b - a) (drop a s))"

definition download_filename :: "js_string \<Rightarrow> js_string" where
  "download_filename p =
     (let name = substring 0 20 (toLowerCase (replace_non_alphanumeric p))
      in if name = [] then ascii ''model'' else name)"

definition handleDownload ::
  "(object3d \<Rightarrow> bool \<Rightarrow> ('j, 'e) parse_outcome) \<Rightarrow> ('j \<Rightarrow> js_string) \<Rightarrow> app \<Rightarrow> 'e io \<Rightarrow> 'e io" where
  "handleDownload parse stringify s w =
     (case currentModel s of
        Some model \<Rightarrow> exportToBinaryGLB parse stringify model (download_filename (prompt s)) w
      | None \<Rightarrow> w)"

text \<open>What can happen to \<open>App\<close>, one handler call at a time.\<close>

datatype event =
  Set_prompt js_string
  | Generate
  | Stop
  | Resolved nat js_string js_string nat nat
  | Rejected nat
  | Model_ready object3d
  | Load_history HistoryItem

fun app_step :: "event \<Rightarrow> app \<Rightarrow> app" where
  "app_step (Set_prompt p) s = setPrompt p s"
| "app_step Generate s = handleGenerate s"
| "app_step Stop s = handleStop s"
| "app_step (Resolved controller p code now1 now2) s = handleGenerate_resolved controller p code now1 now2 s"
| "app_step (Rejected controller) s = handleGenerate_rejected controller s"
| "app_step (Model_ready grp) s = onModelReady grp s"
| "app_step (Load_history item) s = loadHistory item s"

definition app_run :: "event list \<Rightarrow> app \<Rightarrow> app" where
  "app_run es s = fold app_step es s"

text \<open>
  \<open>App\<close> and its \<open>ScenePreview\<close> together: a render passes \<open>generatedCode\<close> to the preview,
  and the preview's \<open>onLoaded\<close> call, if any, sets \<open>currentModel\<close>.
\<close>

definition render :: "js_engine \<Rightarrow> app \<times> preview \<Rightarrow> app \<times> preview" where
  "render js sys =
     (let (pv', loaded) = ScenePreview_commit js (generatedCode (fst sys)) (snd sys)
      in (case loaded of
            Some grp \<Rightarrow> (onModelReady grp (fst sys), pv')
          | None \<Rightarrow> (fst sys, pv')))"

section \<open>Notions used in the statements\<close>

definition scene_releases :: "object3d \<Rightarrow> release list" where
  "scene_releases g = concat (map leaf_releases (meshes g))"

text \<open>The releases that the cleanup still held by a preview will make.\<close>

definition pending :: "preview \<Rightarrow> release list" where
  "pending pv =
     (case slot pv of
        None \<Rightarrow> []
      | Some gobj \<Rightarrow> (case cleanup gobj of None \<Rightarrow> [] | Some g \<Rightarrow> scene_releases g))"








text \<open>
  What one code unit of the prompt becomes in the file name, and the code units a file
  name is made of: small letters, digits and the underscore.
\<close>

definition lower_or_underscore :: "code_unit \<Rightarrow> code_unit" where
  "lower_or_underscore c =
     (if 0x41 \<le> c \<and> c \<le> 0x5A then c + 0x20
      else if (0x61 \<le> c \<and> c \<le> 0x7A) \<or> (0x30 \<le> c \<and> c \<le> 0x39) then c
      else 0x5F)"

definition filename_unit :: "code_unit \<Rightarrow> bool" where
  "filename_unit c \<longleftrightarrow> (0x61 \<le> c \<and> c \<le> 0x7A) \<or> (0x30 \<le> c \<and> c \<le> 0x39) \<or> c = 0x5F"

section \<open>Examples\<close>

text \<open>A group with one mesh, current in \<open>App\<close> and mounted in the preview.\<close>

definition scene_example :: object3d where
  "scene_example =
     Object3D THREE_Group
       [Object3D (THREE_Mesh (BufferGeometry 1)
          (Single \<lparr>material_id = 7, wireframe = False, needsUpdate = True\<rparr>)) []]"

definition app_example :: app where
  "app_example =
     \<lparr>prompt = ascii ''a red cube'', status = SUCCESS, generatedCode = ascii ''f'',
      currentModel = Some scene_example, history = [], abortControllerRef = None,
      aborted = {}, controllers = 1, requests = [(0, ascii ''a red cube'')]\<rparr>"

definition preview_example :: preview where
  "preview_example =
     \<lparr>slot = Some \<lparr>group_state = Some scene_example, cleanup = Some scene_example\<rparr>,
      released = []\<rparr>"

definition engine_example :: js_engine where
  "engine_example code = Compile_throws Console_logs"

text \<open>
  A program that replaces \<open>console.error\<close> by a function that throws, and yields a
  number: \<open>new Function\<close> compiles it, the call returns \<open>0\<close>, which is not a function.
\<close>

definition tamper_code :: js_string where
  "tamper_code = ascii ''(console.error = () => { throw new Error(1) }, 0)''"

definition tamper_engine :: js_engine where
  "tamper_engine code =
     (if code = tamper_code then Not_a_function Console_throws else Compile_throws Console_logs)"




text \<open>\<open>App\<close> while its first generation is in flight, and with a prompt of two spaces.\<close>

definition inflight_example :: app where
  "inflight_example =
     \<lparr>prompt = ascii ''a red cube'', status = GENERATING, generatedCode = [],
      currentModel = None, history = [], abortControllerRef = Some 0,
      aborted = {}, controllers = 1, requests = [(0, ascii ''a red cube'')]\<rparr>"

definition blank_example :: app where
  "blank_example =
     \<lparr>prompt = ascii ''  '', status = GENERATING, generatedCode = ascii ''f'',
      currentModel = Some scene_example, history = [], abortControllerRef = Some 0,
      aborted = {}, controllers = 1, requests = [(0, ascii ''a red cube'')]\<rparr>"

text \<open>Three exporters: one hands over a buffer, one a JSON object, one an error.\<close>

definition parse_binary :: "object3d \<Rightarrow> bool \<Rightarrow> (nat, nat) parse_outcome" where
  "parse_binary object binary = On_done (ArrayBuffer [0x67, 0x6C, 0x54, 0x46])"

definition parse_json :: "object3d \<Rightarrow> bool \<Rightarrow> (nat, nat) parse_outcome" where
  "parse_json object binary = On_done (Gltf_object 0)"

definition parse_fails :: "object3d \<Rightarrow> bool \<Rightarrow> (nat, nat) parse_outcome" where
  "parse_fails object binary = On_error 0"

definition stringify_example :: "nat \<Rightarrow> js_string" where
  "stringify_example json = ascii ''{}''"

definition io_example :: "nat io" where
  "io_example = \<lparr>saved = [], console = []\<rparr>"

section \<open>The evaluator and the normalizer\<close>

text \<open>
  When \<open>console.error\<close> logs, the function returns, and it returns \<open>null\<close> exactly when
  the text does not compile, the compiled value is not a function, the call throws, or the
  returned value is not an \<open>Object3D\<close>.
\<close>

lemma executeGeneratedCode_null_when_logged:
  "(executeGeneratedCode js code = Inr None) =
     (js code \<in> {Compile_throws Console_logs, Not_a_function Console_logs,
                  Generator (Invoke_throws Console_logs),
                  Generator (Invoke_returns (Other_value Console_logs))})"
  by (auto simp: executeGeneratedCode_def executeGeneratedCode_try_def
      split: compiled.splits invocation.splits raw_value.splits sum.splits console_error.splits)

text \<open>
  Claim C2 fails on the code. For the program text \<open>tamper_code\<close> the compiled value is
  not a function, the body of the \<open>try\<close> block throws, the \<open>catch\<close> clause calls the
  replaced \<open>console.error\<close>, and the exception that it throws leaves
  \<open>executeGeneratedCode\<close>: the function does not return \<open>null\<close>.
\<close>

theorem executeGeneratedCode_exception_escapes:
  "executeGeneratedCode tamper_engine tamper_code = Inl Thrown_by_console_error
   \<and> executeGeneratedCode tamper_engine tamper_code \<noteq> Inr None"
  by (simp add: executeGeneratedCode_def executeGeneratedCode_try_def tamper_engine_def)

text \<open>
  Claim C3. When the generated function returns a \<open>THREE.Group\<close>, the result is that
  very group, children included.
\<close>

theorem executeGeneratedCode_group_identity:
  "instanceof_Group raw \<Longrightarrow> js code = Generator (Invoke_returns (Object3D_value raw)) \<Longrightarrow>
   executeGeneratedCode js code = Inr (Some raw)"
  by (simp add: executeGeneratedCode_def executeGeneratedCode_try_def)

theorem executeGeneratedCode_group_identity_witness:
  "instanceof_Group (Object3D THREE_Group [Object3D THREE_Other []]) \<and>
   executeGeneratedCode
     (\<lambda>c. Generator (Invoke_returns (Object3D_value (Object3D THREE_Group [Object3D THREE_Other []]))))
     (ascii ''f'')
   = Inr (Some (Object3D THREE_Group [Object3D THREE_Other []]))"
  using executeGeneratedCode_group_identity
    [of "Object3D THREE_Group [Object3D THREE_Other []]"
        "\<lambda>c. Generator (Invoke_returns (Object3D_value (Object3D THREE_Group [Object3D THREE_Other []])))"
        "ascii ''f''"]
  by simp

lemma wrapper_is_new: "Object3D c [raw] \<noteq> raw"
proof
  assume "Object3D c [raw] = raw"
  then have "size (Object3D c [raw]) = size raw" by simp
  then show False by simp
qed

text \<open>
  Claim C4. When the generated function returns an \<open>Object3D\<close> that is not a
  \<open>THREE.Group\<close> (a mesh or any other node), the result is a group made by the function,
  distinct from the returned node, whose children are that node and nothing else.
\<close>

theorem executeGeneratedCode_wraps_non_group:
  "\<not> instanceof_Group raw \<Longrightarrow> js code = Generator (Invoke_returns (Object3D_value raw)) \<Longrightarrow>
   executeGeneratedCode js code = Inr (Some (Object3D THREE_Group [raw]))
   \<and> instanceof_Group (Object3D THREE_Group [raw])
   \<and> children (Object3D THREE_Group [raw]) = [raw]
   \<and> Object3D THREE_Group [raw] \<noteq> raw"
  by (simp add: executeGeneratedCode_def executeGeneratedCode_try_def new_Group_def wrapper_is_new)

theorem executeGeneratedCode_wraps_non_group_witness:
  "\<not> instanceof_Group (Object3D (THREE_Mesh (BufferGeometry 1) (Single \<lparr>material_id = 7, wireframe = False, needsUpdate = False\<rparr>)) [])
   \<and> executeGeneratedCode
       (\<lambda>c. Generator (Invoke_returns (Object3D_value
          (Object3D (THREE_Mesh (BufferGeometry 1) (Single \<lparr>material_id = 7, wireframe = False, needsUpdate = False\<rparr>)) []))))
       (ascii ''f'')
     = Inr (Some (Object3D THREE_Group
         [Object3D (THREE_Mesh (BufferGeometry 1) (Single \<lparr>material_id = 7, wireframe = False, needsUpdate = False\<rparr>)) []]))"
  using executeGeneratedCode_wraps_non_group
    [of "Object3D (THREE_Mesh (BufferGeometry 1) (Single \<lparr>material_id = 7, wireframe = False, needsUpdate = False\<rparr>)) []"
        "\<lambda>c. Generator (Invoke_returns (Object3D_value
          (Object3D (THREE_Mesh (BufferGeometry 1) (Single \<lparr>material_id = 7, wireframe = False, needsUpdate = False\<rparr>)) [])))"
        "ascii ''f''"]
  by simp

section \<open>Disposal\<close>

lemma traverse_dispose_child:
  "traverse dispose_child g log = log @ scene_releases g"
proof (induction g arbitrary: log)
  case (Object3D c cs)
  have below: "fold (traverse dispose_child) ds acc =
      acc @ concat (map leaf_releases (concat (map meshes ds)))"
    if "set ds \<subseteq> set cs" for ds acc
    using that
  proof (induction ds arbitrary: acc)
    case Nil
    then show ?case by simp
  next
    case (Cons d ds)
    then show ?case using Object3D.IH [of d] by (simp add: scene_releases_def)
  qed
  have here: "dispose_child (Object3D c cs) log =
      log @ concat (map leaf_releases (case c of THREE_Mesh g m \<Rightarrow> [(g, m)] | _ \<Rightarrow> []))"
    by (cases "(Object3D c cs, log)" rule: dispose_child.cases) (auto simp: leaf_releases_def)
  show ?case
    using below [of cs] here by (simp add: scene_releases_def)
qed

lemma run_cleanup_appends:
  "run_cleanup gobj log = log @ (case cleanup gobj of None \<Rightarrow> [] | Some g \<Rightarrow> scene_releases g)"
  by (simp add: run_cleanup_def GeneratedObject_cleanup_def traverse_dispose_child
      split: option.splits)

lemma unmount_released: "released (unmount pv) = released pv @ pending pv"
  by (simp add: unmount_def pending_def run_cleanup_appends split: option.splits)







section \<open>The wireframe toggle\<close>















section \<open>Publication of a scene\<close>

lemma example_prompt_not_blank: "trim (prompt app_example) \<noteq> []"
  by (simp add: app_example_def trim_def ascii_def isWhiteSpace_def)

lemma render_empty_code: "generatedCode a = [] \<Longrightarrow> snd (render js (a, pv)) = unmount pv"
  by (simp add: render_def ScenePreview_commit_def unmount_def split: option.splits)

text \<open>
  Claim C1, as stated, fails. With a scene current and a prompt that is not blank,
  \<open>handleGenerate\<close> sets \<open>currentModel\<close> to \<open>null\<close> before any code has come back, and
  the render that follows disposes the geometry and material of that scene.
\<close>

theorem previous_scene_cleared_counterexample:
  "currentModel (handleGenerate app_example) \<noteq> currentModel app_example
   \<and> released (snd (render engine_example (handleGenerate app_example, preview_example)))
       \<noteq> released preview_example"
  using example_prompt_not_blank
  by (simp add: handleGenerate_def Let_def render_def ScenePreview_commit_def
      app_example_def preview_example_def run_cleanup_def GeneratedObject_cleanup_def
      scene_example_def)

text \<open>
  Claim C1, amended. A render makes a scene current only when \<open>executeGeneratedCode\<close>
  has returned it; when the code is empty or the evaluation fails, \<open>currentModel\<close> stays
  as it was. \<open>handleGenerate\<close> with a prompt that is not blank sets \<open>generatedCode\<close> to the
  empty string and \<open>currentModel\<close> to \<open>null\<close> at once, and the render that follows
  unmounts \<open>GeneratedObject\<close>, which adds the releases of the cleanup it held.
\<close>

theorem scene_current_only_after_evaluation:
  "currentModel (fst (render js (s, pv))) =
     (if generatedCode s = [] then currentModel s
      else case executeGeneratedCode js (generatedCode s) of
             Inr (Some g) \<Rightarrow> Some g
           | Inr None \<Rightarrow> currentModel s
           | Inl exception \<Rightarrow> currentModel s)
   \<and> currentModel (handleGenerate s) = (if trim (prompt s) = [] then currentModel s else None)
   \<and> generatedCode (handleGenerate s) = (if trim (prompt s) = [] then generatedCode s else [])
   \<and> (trim (prompt s) \<noteq> [] \<longrightarrow>
        snd (render js (handleGenerate s, pv)) = unmount pv
        \<and> released (unmount pv) = released pv @ pending pv)"
proof -
  have published: "currentModel (fst (render js (s, pv))) =
     (if generatedCode s = [] then currentModel s
      else case executeGeneratedCode js (generatedCode s) of
             Inr (Some g) \<Rightarrow> Some g
           | Inr None \<Rightarrow> currentModel s
           | Inl exception \<Rightarrow> currentModel s)"
    by (simp add: render_def ScenePreview_commit_def GeneratedObject_effect_def onModelReady_def
        split: option.splits prod.splits sum.splits)
  have model: "currentModel (handleGenerate s) =
      (if trim (prompt s) = [] then currentModel s else None)"
    by (simp add: handleGenerate_def Let_def)
  have code: "generatedCode (handleGenerate s) =
      (if trim (prompt s) = [] then generatedCode s else [])"
    by (simp add: handleGenerate_def Let_def)
  have "snd (render js (handleGenerate s, pv)) = unmount pv" if "trim (prompt s) \<noteq> []"
    using that code by (simp add: render_empty_code)
  then show ?thesis
    using published model code by (simp add: unmount_released)
qed

theorem scene_current_only_after_evaluation_witness:
  "trim (prompt app_example) \<noteq> []
   \<and> currentModel (handleGenerate app_example) = None
   \<and> released (snd (render engine_example (handleGenerate app_example, preview_example)))
       = [Dispose_geometry (BufferGeometry 1), Dispose_material 7]"
  using example_prompt_not_blank
    scene_current_only_after_evaluation [of engine_example app_example preview_example]
  by (simp add: unmount_def preview_example_def run_cleanup_def GeneratedObject_cleanup_def
      scene_example_def)

section \<open>Cancellation\<close>

lemma finally_keeps:
  "generatedCode (handleGenerate_finally c s) = generatedCode s"
  "currentModel (handleGenerate_finally c s) = currentModel s"
  "history (handleGenerate_finally c s) = history s"
  "status (handleGenerate_finally c s) = status s"
  "aborted (handleGenerate_finally c s) = aborted s"
  by (simp_all add: handleGenerate_finally_def)

text \<open>A signal, once aborted, stays aborted whatever \<open>App\<close> does next.\<close>

lemma aborted_app_step: "c \<in> aborted s \<Longrightarrow> c \<in> aborted (app_step e s)"
  by (cases e)
    (auto simp: setPrompt_def handleGenerate_def handleStop_def handleGenerate_resolved_def
      handleGenerate_rejected_def onModelReady_def loadHistory_def finally_keeps Let_def
      split: option.splits)

lemma aborted_app_run: "c \<in> aborted s \<Longrightarrow> c \<in> aborted (app_run es s)"
  unfolding app_run_def
  by (induction es arbitrary: s) (simp_all add: aborted_app_step)

lemma handleStop_aborts: "abortControllerRef s = Some c \<Longrightarrow> c \<in> aborted (handleStop s)"
  by (simp add: handleStop_def)

lemma handleGenerate_aborts:
  "abortControllerRef s = Some c \<Longrightarrow> trim (prompt s) \<noteq> [] \<Longrightarrow> c \<in> aborted (handleGenerate s)"
  by (simp add: handleGenerate_def Let_def)

lemma resolved_after_abort:
  "c \<in> aborted s \<Longrightarrow> handleGenerate_resolved c p code now1 now2 s = handleGenerate_finally c s"
  by (simp add: handleGenerate_resolved_def)

lemma render_same_code:
  "generatedCode a = generatedCode b \<Longrightarrow> snd (render js (a, pv)) = snd (render js (b, pv))"
  by (simp add: render_def split: prod.splits option.splits)

lemma render_same_model:
  "generatedCode a = generatedCode b \<Longrightarrow> currentModel a = currentModel b \<Longrightarrow>
   currentModel (fst (render js (a, pv))) = currentModel (fst (render js (b, pv)))"
  by (simp add: render_def onModelReady_def split: prod.splits option.splits)

text \<open>
  Claim C6. Let a generation be in flight with controller \<open>c\<close>, and let it be aborted by
  \<open>handleStop\<close> or by a new \<open>handleGenerate\<close>. Whatever \<open>App\<close> does after that, when the
  call of \<open>c\<close> resolves with some code, the generated code, the current model, the history
  and the status stay as they were just before, and the next render gives the same preview
  and the same current model as it would have given without the resolution.
\<close>

theorem aborted_generation_discarded:
  assumes "abortControllerRef s = Some c"
    and "s1 = handleStop s \<or> (trim (prompt s) \<noteq> [] \<and> s1 = handleGenerate s)"
    and "s2 = app_run es s1"
    and "s3 = handleGenerate_resolved c p code now1 now2 s2"
  shows "generatedCode s3 = generatedCode s2 \<and> currentModel s3 = currentModel s2
    \<and> history s3 = history s2 \<and> status s3 = status s2
    \<and> snd (render js (s3, pv)) = snd (render js (s2, pv))
    \<and> currentModel (fst (render js (s3, pv))) = currentModel (fst (render js (s2, pv)))"
proof -
  have "c \<in> aborted s1"
    using assms(1,2) handleStop_aborts handleGenerate_aborts by blast
  then have "c \<in> aborted s2"
    using assms(3) by (simp add: aborted_app_run)
  then have s3: "s3 = handleGenerate_finally c s2"
    using assms(4) by (simp add: resolved_after_abort)
  have same: "generatedCode s3 = generatedCode s2" "currentModel s3 = currentModel s2"
    "history s3 = history s2" "status s3 = status s2"
    by (simp_all add: s3 finally_keeps)
  show ?thesis
    using same render_same_code [OF same(1)] render_same_model [OF same(1) same(2)] by simp
qed

theorem aborted_generation_discarded_witness:
  "abortControllerRef inflight_example = Some 0
   \<and> generatedCode (handleGenerate_resolved 0 (ascii ''a red cube'') (ascii ''f'') 5 5
        (app_run [Set_prompt (ascii ''a tree'')] (handleStop inflight_example))) = []
   \<and> currentModel (handleGenerate_resolved 0 (ascii ''a red cube'') (ascii ''f'') 5 5
        (app_run [Set_prompt (ascii ''a tree'')] (handleStop inflight_example))) = None
   \<and> history (handleGenerate_resolved 0 (ascii ''a red cube'') (ascii ''f'') 5 5
        (app_run [Set_prompt (ascii ''a tree'')] (handleStop inflight_example))) = []
   \<and> status (handleGenerate_resolved 0 (ascii ''a red cube'') (ascii ''f'') 5 5
        (app_run [Set_prompt (ascii ''a tree'')] (handleStop inflight_example))) = IDLE"
  using aborted_generation_discarded [of inflight_example 0 "handleStop inflight_example"
      "app_run [Set_prompt (ascii ''a tree'')] (handleStop inflight_example)"
      "[Set_prompt (ascii ''a tree'')]"
      "handleGenerate_resolved 0 (ascii ''a red cube'') (ascii ''f'') 5 5
        (app_run [Set_prompt (ascii ''a tree'')] (handleStop inflight_example))"
      "ascii ''a red cube''" "ascii ''f''" 5 5 engine_example preview_init]
  by (simp add: inflight_example_def app_run_def handleStop_def setPrompt_def)

section \<open>Export\<close>

text \<open>
  Claim C8. When the exporter hands over an \<open>ArrayBuffer\<close>, one file is saved, named
  name + ".glb", of type application/octet-stream, holding the buffer, and nothing is
  logged. When it hands over anything else, one file is saved, named name + ".gltf",
  holding the JSON text of that result, and a warning that the fallback was taken is
  logged. When it reports an error, no file is saved and the error is logged. The
  function has no other outcome.
\<close>

theorem exportToBinaryGLB_outcomes:
  "(parse object True = On_done (ArrayBuffer buffer) \<longrightarrow>
      exportToBinaryGLB parse stringify object name w =
        w\<lparr>saved := saved w @
            [(\<lparr>blob_parts = [Buffer_part buffer], blob_type = ascii ''application/octet-stream''\<rparr>,
              name @ ascii ''.glb'')]\<rparr>)
   \<and> (parse object True = On_done (Gltf_object json) \<longrightarrow>
      exportToBinaryGLB parse stringify object name w =
        w\<lparr>saved := saved w @
            [(\<lparr>blob_parts = [String_part (stringify json)], blob_type = ascii ''text/plain''\<rparr>,
              name @ ascii ''.gltf'')],
          console := console w @
            [Console_warn (ascii ''Exporter did not return ArrayBuffer, falling back to JSON'')]\<rparr>)
   \<and> (parse object True = On_error error \<longrightarrow>
      saved (exportToBinaryGLB parse stringify object name w) = saved w
      \<and> console (exportToBinaryGLB parse stringify object name w) =
          console w @ [Console_error (ascii ''An error happened during export:'') error])"
  by (simp add: exportToBinaryGLB_def saveArrayBuffer_def saveString_def save_def)

theorem exportToBinaryGLB_outcomes_witness:
  "saved (exportToBinaryGLB parse_binary stringify_example scene_example (ascii ''cube'') io_example)
     = [(\<lparr>blob_parts = [Buffer_part [0x67, 0x6C, 0x54, 0x46]],
          blob_type = ascii ''application/octet-stream''\<rparr>, ascii ''cube.glb'')]
   \<and> saved (exportToBinaryGLB parse_json stringify_example scene_example (ascii ''cube'') io_example)
     = [(\<lparr>blob_parts = [String_part (ascii ''{}'')], blob_type = ascii ''text/plain''\<rparr>,
         ascii ''cube.gltf'')]
   \<and> console (exportToBinaryGLB parse_json stringify_example scene_example (ascii ''cube'') io_example)
     = [Console_warn (ascii ''Exporter did not return ArrayBuffer, falling back to JSON'')]
   \<and> saved (exportToBinaryGLB parse_fails stringify_example scene_example (ascii ''cube'') io_example)
     = []
   \<and> console (exportToBinaryGLB parse_fails stringify_example scene_example (ascii ''cube'') io_example)
     = [Console_error (ascii ''An error happened during export:'') 0]"
  using
    exportToBinaryGLB_outcomes [of parse_binary scene_example "[0x67, 0x6C, 0x54, 0x46]"
      stringify_example "ascii ''cube''" io_example 0 0]
    exportToBinaryGLB_outcomes [of parse_json scene_example "[]"
      stringify_example "ascii ''cube''" io_example 0 0]
    exportToBinaryGLB_outcomes [of parse_fails scene_example "[]"
      stringify_example "ascii ''cube''" io_example 0 0]
  by (simp add: parse_binary_def parse_json_def parse_fails_def stringify_example_def
      io_example_def ascii_def)

section \<open>The file name of a download\<close>

lemma lowered_unit:
  "(if 0x41 \<le> (if alphanumeric c then c else 0x5F) \<and> (if alphanumeric c then c else 0x5F) \<le> 0x5A
    then (if alphanumeric c then c else 0x5F) + 0x20
    else (if alphanumeric c then c else (0x5F::code_unit)))
   = lower_or_underscore c"
  by (auto simp: alphanumeric_def lower_or_underscore_def)

lemma capital_lowered:
  assumes "0x41 \<le> c" and "c \<le> (0x5A::code_unit)"
  shows "0x61 \<le> c + 0x20 \<and> c + 0x20 \<le> 0x7A"
proof -
  have lo: "65 \<le> unat c" and hi: "unat c \<le> 90"
    using assms by (simp_all add: word_le_nat_alt)
  have "unat (c + 0x20) = unat c + 32"
    using hi by (simp add: unat_word_ariths)
  then show ?thesis
    using lo hi by (simp add: word_le_nat_alt)
qed

lemma filename_unit_lower_or_underscore: "filename_unit (lower_or_underscore c)"
  unfolding filename_unit_def lower_or_underscore_def
  using capital_lowered [of c] by auto

lemma download_filename_units:
  "download_filename p =
     (if p = [] then ascii ''model'' else map lower_or_underscore (take 20 p))"
proof (cases p)
  case Nil
  then show ?thesis
    by (simp add: download_filename_def substring_def toLowerCase_def replace_non_alphanumeric_def)
next
  case (Cons c cs)
  have "take (min 20 (length p)) p = take 20 p"
    by (simp add: min_def)
  then show ?thesis
    using Cons
    by (simp add: download_filename_def substring_def toLowerCase_def replace_non_alphanumeric_def
        Let_def comp_def lowered_unit take_map)
qed

text \<open>
  Claim C9. The file name is "model" for the empty prompt; otherwise it is made of the
  first 20 code units of the prompt, each ASCII capital put in lower case, each small
  letter and digit kept, and every other code unit replaced by an underscore. It is never
  empty, never longer than 20, and made of small letters, digits and underscores only.
\<close>

theorem download_filename_sanitized:
  "download_filename p =
     (if p = [] then ascii ''model'' else map lower_or_underscore (take 20 p))
   \<and> length (download_filename p) \<le> 20
   \<and> download_filename p \<noteq> []
   \<and> list_all filename_unit (download_filename p)"
proof -
  have "list_all filename_unit (ascii ''model'')"
    by (simp add: ascii_def filename_unit_def)
  moreover have "list_all filename_unit (map lower_or_underscore (take 20 p))"
    by (simp add: list_all_iff filename_unit_lower_or_underscore)
  moreover have "length (ascii ''model'') \<le> 20" and "ascii ''model'' \<noteq> []"
    by (simp_all add: ascii_def)
  ultimately show ?thesis
    by (simp add: download_filename_units)
qed

theorem download_filename_sanitized_witness:
  "download_filename (ascii ''A red cube!'') = ascii ''a_red_cube_''"
  using download_filename_sanitized [of "ascii ''A red cube!''"]
  by (simp add: ascii_def lower_or_underscore_def)

section \<open>A blank prompt\<close>

text \<open>
  Claim C10. When the prompt trims to the empty string, \<open>handleGenerate\<close> returns the
  state it was given: no request is recorded, no controller is aborted or made, and the
  status, the generated code, the current model and the history are as before.
\<close>

theorem handleGenerate_blank_prompt:
  "trim (prompt s) = [] \<Longrightarrow> handleGenerate s = s"
  by (simp add: handleGenerate_def)

theorem handleGenerate_blank_prompt_witness:
  "trim (prompt blank_example) = [] \<and> handleGenerate blank_example = blank_example"
proof -
  have blank: "trim (prompt blank_example) = []"
    by (simp add: blank_example_def trim_def ascii_def isWhiteSpace_def)
  show ?thesis
    using blank handleGenerate_blank_prompt [OF blank] by simp
qed

end
